theory Spec2Isabelle
  imports Complex_Main
begin

section \<open>JavaScript numbers and strings\<close>

text \<open>
  A JavaScript \<^verbatim>\<open>number\<close> is modelled by an exact rational (\<^typ>\<open>rat\<close>), and by
  \<^typ>\<open>int\<close> or \<^typ>\<open>nat\<close> where the source only ever holds a whole number (array
  lengths, counters, scores produced by \<^verbatim>\<open>Math.round\<close>). The values \<^verbatim>\<open>NaN\<close> and
  \<^verbatim>\<open>Infinity\<close> and the rounding error of IEEE doubles are outside this model.
  An optional field (\<^verbatim>\<open>x?: T\<close>) is an \<^typ>\<open>'a option\<close>, \<^term>\<open>None\<close> being
  \<^verbatim>\<open>undefined\<close>.
\<close>

text \<open>\<^verbatim>\<open>Math.round\<close>: the nearest integer, a tie going up.\<close>

definition js_round :: "rat \<Rightarrow> int" where
  "js_round x = \<lfloor>x + 1 / 2\<rfloor>"

text \<open>Truthiness of an optional number: \<^verbatim>\<open>undefined\<close> and \<^verbatim>\<open>0\<close> are falsy.\<close>

definition truthy :: "rat option \<Rightarrow> bool" where
  "truthy x = (case x of None \<Rightarrow> False | Some v \<Rightarrow> v \<noteq> 0)"

text \<open>\<^verbatim>\<open>a || b\<close> on optional numbers, and \<^verbatim>\<open>a || d\<close> with a number as default.\<close>

definition js_or :: "rat option \<Rightarrow> rat option \<Rightarrow> rat option" where
  "js_or a b = (if truthy a then a else b)"

definition or_num :: "rat option \<Rightarrow> rat \<Rightarrow> rat" where
  "or_num a d = (case a of None \<Rightarrow> d | Some v \<Rightarrow> if v \<noteq> 0 then v else d)"

text \<open>
  Division of two numbers. JavaScript does not raise on a zero divisor, it returns
  \<^verbatim>\<open>Infinity\<close> or \<^verbatim>\<open>NaN\<close>; that outcome is \<^term>\<open>None\<close> here.
\<close>

definition js_div :: "rat \<Rightarrow> rat \<Rightarrow> rat option" where
  "js_div a b = (if b = 0 then None else Some (a / b))"

section \<open>Feedback service\<close>

record PerformanceMetrics =
  views :: "rat option"
  impressions :: "rat option"
  likes :: "rat option"
  comments :: "rat option"
  shares :: "rat option"
  saves :: "rat option"
  clicks :: "rat option"
  engagementRate :: "rat option"
  clickThroughRate :: "rat option"
  reach :: "rat option"
  followers :: "rat option"

text \<open>The two local constants of \<^verbatim>\<open>calculateEngagementRate\<close>.\<close>

definition engagements_of :: "PerformanceMetrics \<Rightarrow> rat" where
  "engagements_of metrics =
     or_num (likes metrics) 0 + or_num (comments metrics) 0
       + or_num (shares metrics) 0 + or_num (saves metrics) 0"

definition reach_of :: "PerformanceMetrics \<Rightarrow> rat" where
  "reach_of metrics =
     or_num (js_or (js_or (reach metrics) (impressions metrics)) (views metrics)) 1"

definition calculateEngagementRate :: "PerformanceMetrics \<Rightarrow> rat option" where
  "calculateEngagementRate metrics =
     map_option (\<lambda>q. q * 100) (js_div (engagements_of metrics) (reach_of metrics))"

text \<open>The metrics object with no field set, as \<^verbatim>\<open>{}\<close> in the source.\<close>

definition no_metrics :: PerformanceMetrics where
  "no_metrics = \<lparr>views = None, impressions = None, likes = None, comments = None,
     shares = None, saves = None, clicks = None, engagementRate = None,
     clickThroughRate = None, reach = None, followers = None\<rparr>"

text \<open>
  The denominator as the claim words it: the first of reach, impressions and views that
  is present and not zero, and 1 when there is none.
\<close>

definition first_nonzero :: "rat option list \<Rightarrow> rat" where
  "first_nonzero xs = (case filter truthy xs of [] \<Rightarrow> 1 | x # _ \<Rightarrow> the x)"

definition nonneg :: "rat option \<Rightarrow> bool" where
  "nonneg x = (case x of None \<Rightarrow> True | Some v \<Rightarrow> 0 \<le> v)"

section \<open>Strings\<close>

text \<open>
  A string is a list of characters; \<^verbatim>\<open>s.length\<close> is \<^term>\<open>length s\<close>. Case folding
  is that of the ASCII letters, which is all the literals of the source need.
\<close>

definition upper_letters :: string where
  "upper_letters = ''ABCDEFGHIJKLMNOPQRSTUVWXYZ''"

definition lower_letters :: string where
  "lower_letters = ''abcdefghijklmnopqrstuvwxyz''"

definition lower_char :: "char \<Rightarrow> char" where
  "lower_char c = (case map_of (zip upper_letters lower_letters) c of Some d \<Rightarrow> d | None \<Rightarrow> c)"

definition upper_char :: "char \<Rightarrow> char" where
  "upper_char c = (case map_of (zip lower_letters upper_letters) c of Some d \<Rightarrow> d | None \<Rightarrow> c)"

definition toLowerCase :: "string \<Rightarrow> string" where
  "toLowerCase s = map lower_char s"

text \<open>The classes \<^verbatim>\<open>\d\<close> and \<^verbatim>\<open>\w\<close> of a regular expression.\<close>

definition is_digit :: "char \<Rightarrow> bool" where
  "is_digit c = (c \<in> set ''0123456789'')"

definition is_word_char :: "char \<Rightarrow> bool" where
  "is_word_char c =
     (c \<in> set lower_letters \<or> c \<in> set upper_letters \<or> is_digit c \<or> c = CHR ''_'')"

fun starts_with :: "string \<Rightarrow> string \<Rightarrow> bool" where
  "starts_with s [] = True"
| "starts_with [] (p # ps) = False"
| "starts_with (c # cs) (p # ps) = (c = p \<and> starts_with cs ps)"

text \<open>\<^verbatim>\<open>s.includes(t)\<close>: \<open>t\<close> occurs in \<open>s\<close> as a contiguous substring.\<close>

fun str_includes :: "string \<Rightarrow> string \<Rightarrow> bool" where
  "str_includes [] t = (t = [])"
| "str_includes (c # cs) t = (starts_with (c # cs) t \<or> str_includes cs t)"

text \<open>
  \<^verbatim>\<open>/\byou\b/i.test(s)\<close>: the word \<open>you\<close> in any case, with no word character right
  before or right after it. The flag \<open>prev\<close> says whether the character before
  the current position is a word character.
\<close>

fun word_you_from :: "bool \<Rightarrow> string \<Rightarrow> bool" where
  "word_you_from prev [] = False"
| "word_you_from prev (c # cs) =
     ((\<not> prev \<and> starts_with (toLowerCase (c # cs)) ''you''
        \<and> (case drop 3 (c # cs) of [] \<Rightarrow> True | d # _ \<Rightarrow> \<not> is_word_char d))
      \<or> word_you_from (is_word_char c) cs)"

section \<open>The brief and the blueprint\<close>

text \<open>
  The interfaces of the types module, one record each. A field name used by several
  interfaces carries the interface as a prefix or suffix (\<open>pillars\<close> of the brief's
  meta block is \<open>meta_pillars\<close>, the quantities are \<open>qty_memes\<close>, ...).
\<close>

record CampaignMeta =
  campaign_name :: string
  purpose :: string
  meta_pillars :: "string list"
  primary_theme :: string

record Audience =
  archetypes :: "string list"
  hidden_truth :: string
  fears :: "string list"
  secret_desires :: "string list"

datatype CtaFlavor = soft_cosmic | direct_push | challenge_based | curiosity_based

record EmotionalFrequency =
  humor :: int
  relatability :: int
  shock :: int
  inspiration :: int
  identity_shift :: int

record CreativeInputs =
  raw_brain_dump :: string
  must_include_phrases :: "string list"
  must_avoid_phrases :: "string list"
  voice_reference :: string
  cta_flavor :: CtaFlavor
  emotional_frequency :: EmotionalFrequency

record VisualInputs =
  style_tags :: "string list"
  palette :: string
  instructor_image_url :: string
  logo_image_url :: string

record Formats =
  fmt_memes :: bool
  fmt_static_banners :: bool
  fmt_short_vertical_videos :: bool
  fmt_ugc_scripts :: bool
  fmt_carousels :: bool

record Quantities =
  qty_memes :: int
  qty_static_banners :: int
  qty_short_vertical_videos :: int
  qty_ugc_scripts :: int
  qty_carousels :: int

record OutputsConfig =
  formats :: Formats
  quantities :: Quantities
  platforms :: "string list"
  aspect_ratios :: "string list"
  video_max_duration_seconds :: int

datatype HumorEdge = safe | medium_spicy | spicy_but_kind
datatype BodySensitivity = no_body_shaming | neutral | soft_body_language
datatype LanguageFilter = clean | pg13 | mild_swear
datatype Spirituality = grounded | grounded_cosmic | very_cosmic

record Constraints =
  humor_edge_level :: HumorEdge
  body_sensitivity :: BodySensitivity
  language_filter :: LanguageFilter
  spirituality_flavor :: Spirituality

record CampaignBrief =
  meta :: CampaignMeta
  audience :: Audience
  creative :: CreativeInputs
  visual :: VisualInputs
  outputs :: OutputsConfig
  constraints :: Constraints
  special_notes :: string

record Meme =
  meme_id :: string
  angle :: string
  top_text :: string
  bottom_text :: string
  alt_text :: string
  caption_options :: "string list"
  hashtags :: "string list"
  meme_image_prompt :: string
  meme_aspect_ratios :: "string list"

record StaticBanner =
  banner_id :: string
  banner_headline :: string
  subheadline :: string
  bullets :: "string list"
  cta_text :: string
  layout_description :: string
  banner_image_prompt :: string
  banner_aspect_ratios :: "string list"

record ScriptBeat =
  beat_index :: int
  beat_seconds :: int
  voiceover_text :: string
  on_screen_text :: string
  visual_direction :: string

record ShortVideo =
  video_id :: string
  video_title :: string
  platform_targets :: "string list"
  max_duration_seconds :: int
  script_beats :: "ScriptBeat list"
  storyboard_prompt :: string
  subtitles_block :: string

record ScriptBlock =
  block_index :: int
  block_seconds :: int
  spoken_text :: string
  emotion_note :: string
  framing_note :: string

record UGCScript =
  ugc_id :: string
  hook_line :: string
  persona :: string
  script_blocks :: "ScriptBlock list"
  wardrobe_note :: string
  lighting_note :: string
  overlay_text_cues :: "string list"
  cta_line :: string

record CarouselSlide =
  slide_number :: int
  visual_description :: string
  slide_image_prompt :: string
  slide_headline :: string
  body_copy :: string

record Carousel =
  carousel_id :: string
  carousel_title :: string
  slides :: "CarouselSlide list"

datatype MomentType = primal_flow_fusion | animator_shift | moments

record MomentsMapping =
  moment_type :: MomentType
  use_case :: string
  suggested_line :: string
  where_to_use :: string

record CampaignSummary =
  one_liner :: string
  pillars :: "string list"
  core_promise :: string
  primary_emotions :: "string list"
  tone_description :: string

record NarrativePack =
  hooks :: "string list"
  pain_points :: "string list"
  micro_transformations :: "string list"
  cta_variants :: "string list"
  taglines :: "string list"

record CampaignBlueprint =
  campaign_summary :: CampaignSummary
  narrative_pack :: NarrativePack
  memes :: "Meme list"
  static_banners :: "StaticBanner list"
  short_videos :: "ShortVideo list"
  ugc_scripts :: "UGCScript list"
  carousels :: "Carousel list"
  moments_mapping :: "MomentsMapping list"

section \<open>Health score\<close>

record Breakdown =
  narrativeStrength :: int
  emotionalBalance :: int
  assetCoverage :: int
  hookQuality :: int
  ctaClarity :: int
  pillarAlignment :: int

datatype InsightType = strength | warning | opportunity

text \<open>The union \<^verbatim>\<open>'low' | 'medium' | 'high'\<close>, of an insight's impact and a whisper's priority.\<close>

datatype Level = low | medium | high

record HealthInsight =
  insight_type :: InsightType
  insight_category :: string
  insight_message :: string
  impact :: Level

record HealthScoreResult =
  overall :: int
  breakdown :: Breakdown
  insights :: "HealthInsight list"
  recommendations :: "string list"

text \<open>
  The arrays of a blueprint are read as \<^verbatim>\<open>xs?.length || 0\<close> or \<^verbatim>\<open>xs || []\<close>: a
  missing array counts as the empty one, which is how it is represented here.
\<close>

definition analyzeNarrativeStrength :: "CampaignBlueprint \<Rightarrow> int" where
  "analyzeNarrativeStrength blueprint =
     (let score = 0;
          narrative = narrative_pack blueprint;
          hookCount = int (length (hooks narrative));
          score = score + min (hookCount * 5) 25;
          painCount = int (length (pain_points narrative));
          score = score + min (painCount * 5) 20;
          transCount = int (length (micro_transformations narrative));
          score = score + min (transCount * 5) 20;
          taglineCount = int (length (taglines narrative));
          score = score + min (taglineCount * 4) 20;
          summary = campaign_summary blueprint;
          score = (if length (one_liner summary) > 10 then score + 5 else score);
          score = (if length (core_promise summary) > 10 then score + 5 else score);
          score = (if length (tone_description summary) > 10 then score + 5 else score)
      in min score 100)"

text \<open>\<^verbatim>\<open>Object.entries\<close> and \<^verbatim>\<open>Object.values\<close> of the emotional frequencies.\<close>

definition freq_entries :: "EmotionalFrequency \<Rightarrow> (string \<times> int) list" where
  "freq_entries freq =
     [(''humor'', humor freq), (''relatability'', relatability freq), (''shock'', shock freq),
      (''inspiration'', inspiration freq), (''identity_shift'', identity_shift freq)]"

definition freq_values :: "EmotionalFrequency \<Rightarrow> int list" where
  "freq_values freq = map snd (freq_entries freq)"

definition positive_words :: "string list" where
  "positive_words = [''joy'', ''inspiration'', ''hope'', ''excitement'', ''empowerment'']"

definition tension_words :: "string list" where
  "tension_words = [''urgency'', ''fomo'', ''frustration'', ''challenge'']"

text \<open>\<^verbatim>\<open>xs.some(e => words.some(w => e.toLowerCase().includes(w)))\<close>\<close>

definition some_includes :: "string list \<Rightarrow> string list \<Rightarrow> bool" where
  "some_includes xs words =
     list_ex (\<lambda>e. list_ex (\<lambda>w. str_includes (toLowerCase e) w) words) xs"

definition analyzeEmotionalBalance :: "CampaignBrief \<Rightarrow> CampaignBlueprint \<Rightarrow> int" where
  "analyzeEmotionalBalance brief blueprint =
     (let freq = emotional_frequency (creative brief);
          emotions = primary_emotions (campaign_summary blueprint);
          score = 50;
          highFreqEmotions = map fst (filter (\<lambda>(key, val). val \<ge> 7) (freq_entries freq));
          score = (if length emotions \<ge> 2 \<and> length emotions \<le> 5 then score + 20 else score);
          hasPositive = some_includes emotions positive_words;
          hasTension = some_includes emotions tension_words;
          score = (if hasPositive then score + 15 else score);
          score = (if hasTension then score + 15 else score);
          maxFreq = fold max (tl (freq_values freq)) (hd (freq_values freq));
          minFreq = fold min (tl (freq_values freq)) (hd (freq_values freq));
          score = (if maxFreq - minFreq > 7 then score - 15 else score)
      in max 0 (min score 100))"

text \<open>
  The body of the \<^verbatim>\<open>forEach\<close> of \<^verbatim>\<open>analyzeAssetCoverage\<close>, on one key: \<open>req\<close> is the
  quantity requested, \<open>gen\<close> the number generated, and the state is the pair
  (\<open>totalRequested\<close>, \<open>totalGenerated\<close>).
\<close>

definition coverage_step :: "int \<times> nat \<Rightarrow> nat \<times> rat \<Rightarrow> nat \<times> rat" where
  "coverage_step rg acc =
     (case rg of (req, gen) \<Rightarrow> case acc of (totalRequested, totalGenerated) \<Rightarrow>
        if req > 0 then
          (totalRequested + 1,
           if int gen \<ge> req then totalGenerated + 1
           else if gen > 0 then totalGenerated + of_nat gen / of_int req
           else totalGenerated)
        else (totalRequested, totalGenerated))"

text \<open>The requested and the generated number for each key, in the order of the keys.\<close>

definition coverage_pairs :: "CampaignBrief \<Rightarrow> CampaignBlueprint \<Rightarrow> (int \<times> nat) list" where
  "coverage_pairs brief blueprint =
     (let requested = quantities (outputs brief)
      in [(qty_memes requested, length (memes blueprint)),
          (qty_static_banners requested, length (static_banners blueprint)),
          (qty_short_vertical_videos requested, length (short_videos blueprint)),
          (qty_ugc_scripts requested, length (ugc_scripts blueprint)),
          (qty_carousels requested, length (carousels blueprint))])"

definition analyzeAssetCoverage :: "CampaignBrief \<Rightarrow> CampaignBlueprint \<Rightarrow> int" where
  "analyzeAssetCoverage brief blueprint =
     (case fold coverage_step (coverage_pairs brief blueprint) (0, 0) of
        (totalRequested, totalGenerated) \<Rightarrow>
          if totalRequested > 0
          then js_round (totalGenerated / of_nat totalRequested * 100)
          else 100)"

definition emotion_words :: "string list" where
  "emotion_words = [''stop'', ''never'', ''secret'', ''truth'', ''why'', ''how'', ''what if'',
     ''imagine'', ''finally'']"

text \<open>What one hook adds to the score in the \<^verbatim>\<open>forEach\<close> of \<^verbatim>\<open>analyzeHookQuality\<close>.\<close>

definition hook_points :: "string \<Rightarrow> int" where
  "hook_points hook =
     (let score = (if length hook \<ge> 20 \<and> length hook \<le> 100 then 10
                   else if length hook < 20 then 5 else 0);
          hasQuestion = str_includes hook ''?'';
          hasNumber = list_ex is_digit hook;
          hasEmotionWord = list_ex (\<lambda>w. str_includes (toLowerCase hook) w) emotion_words;
          hasYou = word_you_from False hook;
          score = (if hasQuestion then score + 5 else score);
          score = (if hasNumber then score + 3 else score);
          score = (if hasEmotionWord then score + 5 else score);
          score = (if hasYou then score + 2 else score)
      in score)"

definition analyzeHookQuality :: "CampaignBlueprint \<Rightarrow> int" where
  "analyzeHookQuality blueprint =
     (let hooks = hooks (narrative_pack blueprint)
      in if length hooks = 0 then 0
         else let score = fold (\<lambda>hook score. score + hook_points hook) hooks 0
              in min (js_round (of_int score / of_nat (length hooks) * 4)) 100)"

definition actionWords :: "string list" where
  "actionWords = [''start'', ''join'', ''get'', ''try'', ''discover'', ''unlock'', ''claim'',
     ''begin'', ''transform'']"

definition urgencyWords :: "string list" where
  "urgencyWords = [''now'', ''today'', ''free'', ''limited'', ''exclusive'']"

definition analyzeCtaClarity :: "CampaignBlueprint \<Rightarrow> int" where
  "analyzeCtaClarity blueprint =
     (let ctas = cta_variants (narrative_pack blueprint)
      in if length ctas = 0 then 30
         else let score = 50;
                  score = (if length ctas \<ge> 3 then score + 20
                           else if length ctas \<ge> 2 then score + 10 else score);
                  hasActionWords = some_includes ctas actionWords;
                  score = (if hasActionWords then score + 15 else score);
                  hasUrgency = some_includes ctas urgencyWords;
                  score = (if hasUrgency then score + 15 else score)
              in min score 100)"

text \<open>
  The filter of \<^verbatim>\<open>analyzePillarAlignment\<close>: a requested pillar is matched when some
  pillar of the blueprint's summary contains it, both in lower case.
\<close>

definition pillar_matched :: "string list \<Rightarrow> string \<Rightarrow> bool" where
  "pillar_matched generatedPillars p =
     list_ex (\<lambda>gp. str_includes (toLowerCase gp) (toLowerCase p)) generatedPillars"

definition matchCount :: "CampaignBrief \<Rightarrow> CampaignBlueprint \<Rightarrow> nat" where
  "matchCount brief blueprint =
     length (filter (pillar_matched (pillars (campaign_summary blueprint)))
       (meta_pillars (meta brief)))"

definition analyzePillarAlignment :: "CampaignBrief \<Rightarrow> CampaignBlueprint \<Rightarrow> int" where
  "analyzePillarAlignment brief blueprint =
     (let requestedPillars = meta_pillars (meta brief)
      in if length requestedPillars = 0 then 100
         else js_round (of_nat (matchCount brief blueprint)
                / of_nat (length requestedPillars) * 100))"

text \<open>
  \<^verbatim>\<open>generateInsights\<close> pushes at most one insight per block; each block is a list of
  zero or one insight here, and the result is their concatenation in the order of the
  source. The function receives the brief and the blueprint and reads neither.
\<close>

definition generateInsights ::
  "CampaignBrief \<Rightarrow> CampaignBlueprint \<Rightarrow> Breakdown \<Rightarrow> HealthInsight list" where
  "generateInsights brief blueprint bd =
     (if narrativeStrength bd \<ge> 80 then
        [\<lparr>insight_type = strength, insight_category = ''Narrative'',
          insight_message = ''Strong narrative foundation with compelling hooks and transformations.'',
          impact = high\<rparr>]
      else if narrativeStrength bd < 50 then
        [\<lparr>insight_type = warning, insight_category = ''Narrative'',
          insight_message = ''Narrative needs more hooks and pain point articulation.'',
          impact = high\<rparr>]
      else [])
     @ (if emotionalBalance bd \<ge> 75 then
        [\<lparr>insight_type = strength, insight_category = ''Emotion'',
          insight_message = ''Well-balanced emotional mix creates compelling tension.'',
          impact = medium\<rparr>]
      else if emotionalBalance bd < 50 then
        [\<lparr>insight_type = warning, insight_category = ''Emotion'',
          insight_message = ''Emotional frequencies are imbalanced. Consider adjusting.'',
          impact = medium\<rparr>]
      else [])
     @ (if assetCoverage bd < 80 then
        [\<lparr>insight_type = warning, insight_category = ''Assets'',
          insight_message = ''Some requested asset types are under-delivered.'',
          impact = medium\<rparr>]
      else [])
     @ (if hookQuality bd \<ge> 80 then
        [\<lparr>insight_type = strength, insight_category = ''Hooks'',
          insight_message = ''Scroll-stopping hooks with strong pattern interrupts.'',
          impact = high\<rparr>]
      else if hookQuality bd < 50 then
        [\<lparr>insight_type = opportunity, insight_category = ''Hooks'',
          insight_message = ''Hooks could be punchier. Add questions or numbers.'',
          impact = high\<rparr>]
      else [])
     @ (if ctaClarity bd \<ge> 80 then
        [\<lparr>insight_type = strength, insight_category = ''CTAs'',
          insight_message = ''Clear, action-oriented calls to action.'',
          impact = medium\<rparr>]
      else [])
     @ (if pillarAlignment bd < 100 \<and> pillarAlignment bd > 0 then
        [\<lparr>insight_type = warning, insight_category = ''Strategy'',
          insight_message = ''Not all strategic pillars are reflected in the blueprint.'',
          impact = low\<rparr>]
      else [])"

text \<open>The second argument (the insights, \<open>found\<close> here) is not read.\<close>

definition generateRecommendations :: "Breakdown \<Rightarrow> HealthInsight list \<Rightarrow> string list" where
  \<open>generateRecommendations bd found =
     (let recommendations =
        (if hookQuality bd < 70
         then [''Add more questions and numbers to your hooks for higher engagement.'']
         else [])
        @ (if emotionalBalance bd < 60
         then [''Balance positive emotions (inspiration, hope) with tension (urgency, FOMO).'']
         else [])
        @ (if narrativeStrength bd < 60
         then [''Develop more micro-transformations to show the journey.'']
         else [])
        @ (if ctaClarity bd < 60
         then [''Use stronger action verbs in CTAs: "Unlock", "Claim", "Transform".'']
         else [])
        @ (if assetCoverage bd < 80
         then [''Consider regenerating the blueprint to meet all asset requirements.'']
         else [])
      in if length recommendations = 0
         then [''Campaign is strong. Consider A/B testing hooks for optimization.'']
         else recommendations)\<close>

text \<open>The weights of \<^verbatim>\<open>analyzeHealthScore\<close>, in the order of the breakdown.\<close>

record Weights =
  w_narrativeStrength :: rat
  w_emotionalBalance :: rat
  w_assetCoverage :: rat
  w_hookQuality :: rat
  w_ctaClarity :: rat
  w_pillarAlignment :: rat

definition weights :: Weights where
  "weights = \<lparr>w_narrativeStrength = 0.20, w_emotionalBalance = 0.15,
     w_assetCoverage = 0.20, w_hookQuality = 0.20, w_ctaClarity = 0.15,
     w_pillarAlignment = 0.10\<rparr>"

definition analyzeBreakdown :: "CampaignBrief \<Rightarrow> CampaignBlueprint \<Rightarrow> Breakdown" where
  "analyzeBreakdown brief blueprint =
     \<lparr>narrativeStrength = analyzeNarrativeStrength blueprint,
      emotionalBalance = analyzeEmotionalBalance brief blueprint,
      assetCoverage = analyzeAssetCoverage brief blueprint,
      hookQuality = analyzeHookQuality blueprint,
      ctaClarity = analyzeCtaClarity blueprint,
      pillarAlignment = analyzePillarAlignment brief blueprint\<rparr>"

definition weighted_sum :: "Breakdown \<Rightarrow> rat" where
  "weighted_sum bd =
     of_int (narrativeStrength bd) * w_narrativeStrength weights
     + of_int (emotionalBalance bd) * w_emotionalBalance weights
     + of_int (assetCoverage bd) * w_assetCoverage weights
     + of_int (hookQuality bd) * w_hookQuality weights
     + of_int (ctaClarity bd) * w_ctaClarity weights
     + of_int (pillarAlignment bd) * w_pillarAlignment weights"

definition analyzeHealthScore :: "CampaignBrief \<Rightarrow> CampaignBlueprint \<Rightarrow> HealthScoreResult" where
  "analyzeHealthScore brief blueprint =
     (let bd = analyzeBreakdown brief blueprint;
          overall = js_round (weighted_sum bd);
          insights = generateInsights brief blueprint bd;
          recommendations = generateRecommendations bd insights
      in \<lparr>overall = overall, breakdown = bd, insights = insights,
          recommendations = recommendations\<rparr>)"











section \<open>Publishing service\<close>

text \<open>
  The type \<^verbatim>\<open>Platform\<close> is the union of the four literals \<^verbatim>\<open>'meta'\<close>, \<^verbatim>\<open>'tiktok'\<close>,
  \<^verbatim>\<open>'linkedin'\<close> and \<^verbatim>\<open>'twitter'\<close>. It is a string here, as at run time, so that
  the \<^verbatim>\<open>default\<close> branch of \<^verbatim>\<open>publish\<close> is part of the model. A text of the source
  that is not ASCII (the icons) is written as its code points.
\<close>

type_synonym Platform = string

record PlatformCredentials =
  cred_platform :: Platform
  accessToken :: string
  refreshToken :: "string option"
  expiresAt :: "int option"
  accountId :: "string option"
  accountName :: "string option"

record Content =
  content_text :: "string option"
  imageUrl :: "string option"
  videoUrl :: "string option"
  link :: "string option"
  content_hashtags :: "string list option"

record Scheduling =
  publishAt :: "int option"
  timezone :: "string option"

record PublishRequest =
  platform :: Platform
  content :: Content
  scheduling :: "Scheduling option"

record PublishResult =
  success :: bool
  result_platform :: Platform
  postId :: "string option"
  postUrl :: "string option"
  error :: "string option"
  publishedAt :: "int option"

record PlatformConfig =
  config_platform :: Platform
  config_name :: string
  config_icon :: string
  color :: string
  supportsImages :: bool
  supportsVideo :: bool
  supportsScheduling :: bool
  maxTextLength :: nat
  aspectRatios :: "string list"
  authUrl :: "string option"

definition PLATFORM_CONFIGS :: "Platform \<rightharpoonup> PlatformConfig" where
  "PLATFORM_CONFIGS = map_of
     [(''meta'', \<lparr>config_platform = ''meta'', config_name = ''Meta (Instagram/Facebook)'',
         config_icon = ''U+F8FF U+00FC U+00EC U+00F2'', color = ''#1877F2'',
         supportsImages = True, supportsVideo = True, supportsScheduling = True,
         maxTextLength = 2200, aspectRatios = [''1:1'', ''4:5'', ''9:16''],
         authUrl = Some ''https://www.facebook.com/v18.0/dialog/oauth''\<rparr>),
      (''tiktok'', \<lparr>config_platform = ''tiktok'', config_name = ''TikTok'',
         config_icon = ''U+F8FF U+00FC U+00E9 U+00B5'', color = ''#000000'',
         supportsImages = False, supportsVideo = True, supportsScheduling = False,
         maxTextLength = 2200, aspectRatios = [''9:16''],
         authUrl = Some ''https://www.tiktok.com/auth/authorize/''\<rparr>),
      (''linkedin'', \<lparr>config_platform = ''linkedin'', config_name = ''LinkedIn'',
         config_icon = ''U+F8FF U+00FC U+00ED U+00BA'', color = ''#0A66C2'',
         supportsImages = True, supportsVideo = True, supportsScheduling = True,
         maxTextLength = 3000, aspectRatios = [''1:1'', ''16:9'', ''4:5''],
         authUrl = Some ''https://www.linkedin.com/oauth/v2/authorization''\<rparr>),
      (''twitter'', \<lparr>config_platform = ''twitter'', config_name = ''X (Twitter)'',
         config_icon = ''U+F8FF U+00F9 U+00EF U+00E8'', color = ''#000000'',
         supportsImages = True, supportsVideo = True, supportsScheduling = True,
         maxTextLength = 280, aspectRatios = [''16:9'', ''1:1''],
         authUrl = Some ''https://twitter.com/i/oauth2/authorize''\<rparr>)]"

text \<open>
  The module-level map \<^verbatim>\<open>storedCredentials\<close> is the state of the service. Every function
  that reads or writes it takes the map; the publishing functions return it next to
  their result. \<^verbatim>\<open>Date.now()\<close> is the argument \<open>now\<close>, in milliseconds.
\<close>

type_synonym CredentialStore = "Platform \<rightharpoonup> PlatformCredentials"

definition getStoredCredentials :: "CredentialStore \<Rightarrow> Platform \<Rightarrow> PlatformCredentials option" where
  "getStoredCredentials storedCredentials p = storedCredentials p"

definition storeCredentials :: "CredentialStore \<Rightarrow> PlatformCredentials \<Rightarrow> CredentialStore" where
  "storeCredentials storedCredentials credentials =
     storedCredentials(cred_platform credentials \<mapsto> credentials)"

definition removeCredentials :: "CredentialStore \<Rightarrow> Platform \<Rightarrow> CredentialStore" where
  "removeCredentials storedCredentials p = storedCredentials(p := None)"

text \<open>Decimal notation of a number, as a template string renders it.\<close>

definition digit_char :: "nat \<Rightarrow> char" where
  "digit_char d = ''0123456789'' ! d"

function show_nat :: "nat \<Rightarrow> string" where
  "show_nat n = (if n < 10 then [digit_char n] else show_nat (n div 10) @ [digit_char (n mod 10)])"
  by pat_completeness auto
termination
  by (relation "measure id") auto

declare show_nat.simps [simp del]

definition show_int :: "int \<Rightarrow> string" where
  "show_int i = (if i < 0 then CHR ''-'' # show_nat (nat (- i)) else show_nat (nat i))"

definition failure :: "Platform \<Rightarrow> string \<Rightarrow> PublishResult" where
  "failure p msg = \<lparr>success = False, result_platform = p, postId = None, postUrl = None,
     error = Some msg, publishedAt = None\<rparr>"

definition published :: "Platform \<Rightarrow> string \<Rightarrow> string \<Rightarrow> int \<Rightarrow> PublishResult" where
  "published p pid url now = \<lparr>success = True, result_platform = p, postId = Some pid,
     postUrl = Some url, error = None, publishedAt = Some now\<rparr>"

definition publishToMeta ::
  "int \<Rightarrow> CredentialStore \<Rightarrow> PublishRequest \<Rightarrow> PublishResult \<times> CredentialStore" where
  "publishToMeta now storedCredentials request =
     (case getStoredCredentials storedCredentials ''meta'' of
        None \<Rightarrow>
          (failure ''meta'' ''Not authenticated with Meta. Please connect your account.'',
           storedCredentials)
      | Some credentials \<Rightarrow>
          (published ''meta'' (''meta_post_'' @ show_int now)
             ''https://www.instagram.com/p/mock_post_id/'' now,
           storedCredentials))"

definition publishToTikTok ::
  "int \<Rightarrow> CredentialStore \<Rightarrow> PublishRequest \<Rightarrow> PublishResult \<times> CredentialStore" where
  "publishToTikTok now storedCredentials request =
     (case getStoredCredentials storedCredentials ''tiktok'' of
        None \<Rightarrow>
          (failure ''tiktok'' ''Not authenticated with TikTok. Please connect your account.'',
           storedCredentials)
      | Some credentials \<Rightarrow>
          if videoUrl (content request) = None \<or> videoUrl (content request) = Some []
          then (failure ''tiktok'' ''TikTok requires video content.'', storedCredentials)
          else (published ''tiktok'' (''tiktok_post_'' @ show_int now)
                  ''https://www.tiktok.com/@user/video/mock_video_id'' now,
                storedCredentials))"

definition publishToLinkedIn ::
  "int \<Rightarrow> CredentialStore \<Rightarrow> PublishRequest \<Rightarrow> PublishResult \<times> CredentialStore" where
  "publishToLinkedIn now storedCredentials request =
     (case getStoredCredentials storedCredentials ''linkedin'' of
        None \<Rightarrow>
          (failure ''linkedin'' ''Not authenticated with LinkedIn. Please connect your account.'',
           storedCredentials)
      | Some credentials \<Rightarrow>
          (published ''linkedin'' (''linkedin_post_'' @ show_int now)
             ''https://www.linkedin.com/feed/update/mock_update_id/'' now,
           storedCredentials))"

definition publishToTwitter ::
  "int \<Rightarrow> CredentialStore \<Rightarrow> PublishRequest \<Rightarrow> PublishResult \<times> CredentialStore" where
  "publishToTwitter now storedCredentials request =
     (case getStoredCredentials storedCredentials ''twitter'' of
        None \<Rightarrow>
          (failure ''twitter'' ''Not authenticated with X. Please connect your account.'',
           storedCredentials)
      | Some credentials \<Rightarrow>
          if (case content_text (content request) of None \<Rightarrow> False
              | Some t \<Rightarrow> t \<noteq> [] \<and> length t > 280)
          then (failure ''twitter'' ''Tweet exceeds 280 character limit.'', storedCredentials)
          else (published ''twitter'' (''tweet_'' @ show_int now)
                  ''https://twitter.com/user/status/mock_tweet_id'' now,
                storedCredentials))"

definition publish ::
  "int \<Rightarrow> CredentialStore \<Rightarrow> PublishRequest \<Rightarrow> PublishResult \<times> CredentialStore" where
  "publish now storedCredentials request =
     (if platform request = ''meta'' then publishToMeta now storedCredentials request
      else if platform request = ''tiktok'' then publishToTikTok now storedCredentials request
      else if platform request = ''linkedin'' then publishToLinkedIn now storedCredentials request
      else if platform request = ''twitter'' then publishToTwitter now storedCredentials request
      else (failure (platform request) ''Unknown platform'', storedCredentials))"

text \<open>Example values: a request with no content, and credentials for a platform.\<close>

definition empty_request :: "Platform \<Rightarrow> PublishRequest" where
  "empty_request p = \<lparr>platform = p,
     content = \<lparr>content_text = None, imageUrl = None, videoUrl = None, link = None,
       content_hashtags = None\<rparr>,
     scheduling = None\<rparr>"

definition text_request :: "Platform \<Rightarrow> string \<Rightarrow> PublishRequest" where
  "text_request p t = (empty_request p)\<lparr>content := (content (empty_request p))\<lparr>content_text := Some t\<rparr>\<rparr>"

definition mock_credentials :: "Platform \<Rightarrow> PlatformCredentials" where
  "mock_credentials p = \<lparr>cred_platform = p, accessToken = ''token'', refreshToken = None,
     expiresAt = None, accountId = None, accountName = None\<rparr>"

section \<open>Whisper service\<close>

datatype WhisperType = w_insight | w_suggestion | w_warning | w_opportunity

datatype WhisperCategory =
  cat_assets | cat_engagement | cat_trends | cat_optimization | cat_timing

record Whisper =
  whisper_id :: string
  whisper_type :: WhisperType
  category :: WhisperCategory
  title :: string
  message :: string
  action :: "string option"
  actionLabel :: "string option"
  priority :: Level
  icon :: string
  whisper_createdAt :: int

datatype AssetType = meme | banner | storyboard | carousel | video

definition asset_type_name :: "AssetType \<Rightarrow> string" where
  "asset_type_name ty = (case ty of meme \<Rightarrow> ''meme'' | banner \<Rightarrow> ''banner''
     | storyboard \<Rightarrow> ''storyboard'' | carousel \<Rightarrow> ''carousel'' | video \<Rightarrow> ''video'')"

text \<open>
  The stored brief and blueprint are of type \<^verbatim>\<open>any\<close>; the service reads the pillars of
  the brief only, through \<^verbatim>\<open>c.brief?.meta?.pillars || []\<close>.
\<close>

record StoredCampaign =
  campaign_id :: string
  stored_name :: string
  stored_brief :: "CampaignBrief option"
  stored_blueprint :: "CampaignBlueprint option"
  createdAt :: int
  updatedAt :: int
  healthScore :: "int option"
  campaign_tags :: "string list option"

record StoredAsset =
  asset_id :: string
  campaignId :: string
  asset_type :: AssetType
  dataUrl :: string
  prompt :: string
  asset_createdAt :: int
  asset_tags :: "string list option"

text \<open>
  What the service reads of the date and time: \<^verbatim>\<open>Date.now()\<close> in milliseconds, and
  \<^verbatim>\<open>getMonth()\<close> (0 to 11) and \<^verbatim>\<open>getDay()\<close> (0 to 6, Sunday first) of \<^verbatim>\<open>new Date()\<close>.
  One reading serves a whole call.
\<close>

record Clock =
  clock_now :: int
  clock_month :: nat
  clock_day :: nat

text \<open>
  A counter object (\<^verbatim>\<open>Record<string, number>\<close>) as an association list in the order
  of insertion, which is the order of \<^verbatim>\<open>Object.entries\<close>;
  \<^verbatim>\<open>counts[k] = (counts[k] || 0) + 1\<close> is \<open>count_up\<close>.
\<close>

fun count_up :: "string \<Rightarrow> (string \<times> nat) list \<Rightarrow> (string \<times> nat) list" where
  "count_up k [] = [(k, 1)]"
| "count_up k ((k', n) # kvs) = (if k = k' then (k', n + 1) # kvs else (k', n) # count_up k kvs)"

text \<open>\<^verbatim>\<open>!counts[k] || counts[k] < total * f\<close>, with \<open>tot\<close> for \<^verbatim>\<open>total\<close>.\<close>

definition rarely_used :: "(string \<times> nat) list \<Rightarrow> string \<Rightarrow> nat \<Rightarrow> rat \<Rightarrow> bool" where
  "rarely_used counts k tot f =
     (case map_of counts k of None \<Rightarrow> True
      | Some n \<Rightarrow> n = 0 \<or> of_nat n < of_nat tot * f)"

definition capitalize :: "string \<Rightarrow> string" where
  "capitalize s = (case s of [] \<Rightarrow> [] | c # cs \<Rightarrow> upper_char c # cs)"

definition getAssetSuggestion :: "string \<Rightarrow> string" where
  "getAssetSuggestion ty =
     (case map_of
        [(''meme'', ''Memes drive high shareability and relatability.''),
         (''banner'', ''Banners are great for professional platforms and ads.''),
         (''storyboard'', ''Storyboards help visualize video concepts before production.''),
         (''carousel'', ''Carousels drive deep engagement, especially on LinkedIn.'')] ty
      of Some t \<Rightarrow> t | None \<Rightarrow> [])"

definition getAssetIcon :: "string \<Rightarrow> string" where
  "getAssetIcon ty =
     (case map_of
        [(''meme'', ''U+1F5BC U+FE0F''), (''banner'', ''U+1F3A8''),
         (''storyboard'', ''U+1F3AC''), (''carousel'', ''U+1F3A0'')] ty
      of Some t \<Rightarrow> t | None \<Rightarrow> ''U+1F4E6'')"

definition assetTypes :: "string list" where
  "assetTypes = [''meme'', ''banner'', ''storyboard'', ''carousel'']"

definition analyzeAssetDistribution :: "Clock \<Rightarrow> StoredAsset list \<Rightarrow> Whisper list" where
  "analyzeAssetDistribution clk assets =
     (if length assets = 0 then []
      else
        let byType = fold (\<lambda>a counts. count_up (asset_type_name (asset_type a)) counts) assets [];
            total = length assets;
            types = byType
        in concat (map (\<lambda>ty.
             if rarely_used byType ty total 0.1 then
               [\<lparr>whisper_id = ''whisper_asset_'' @ ty @ ''_'' @ show_int (clock_now clk),
                 whisper_type = w_suggestion, category = cat_assets,
                 title = capitalize ty @ ''s Underused'',
                 message = ''You've created few '' @ ty @ ''s. '' @ getAssetSuggestion ty,
                 action = None, actionLabel = None, priority = medium,
                 icon = getAssetIcon ty, whisper_createdAt = clock_now clk\<rparr>]
             else []) assetTypes)
           @ concat (map (\<lambda>(ty, count).
             if of_nat count > (of_nat total :: rat) * 0.6 then
               [\<lparr>whisper_id = ''whisper_overuse_'' @ ty @ ''_'' @ show_int (clock_now clk),
                 whisper_type = w_insight, category = cat_assets,
                 title = ''Asset Mix Imbalance'',
                 message = show_int (js_round (of_nat count / of_nat total * 100))
                   @ ''% of your assets are '' @ ty
                   @ ''s. Diversifying could reach different audience segments.'',
                 action = None, actionLabel = None, priority = low,
                 icon = ''U+2696 U+FE0F'', whisper_createdAt = clock_now clk\<rparr>]
             else []) types))"

definition health_or_0 :: "StoredCampaign \<Rightarrow> int" where
  "health_or_0 c = (case healthScore c of None \<Rightarrow> 0 | Some h \<Rightarrow> h)"

definition analyzeCampaignPatterns :: "Clock \<Rightarrow> StoredCampaign list \<Rightarrow> Whisper list" where
  "analyzeCampaignPatterns clk campaigns =
     (if length campaigns < 2 then []
      else
        let recentCampaigns = take 5 campaigns;
            avgHealth = (of_int (fold (\<lambda>c sum. sum + health_or_0 c) recentCampaigns 0) :: rat)
              / of_nat (length recentCampaigns)
        in (if avgHealth < 60 then
              [\<lparr>whisper_id = ''whisper_health_'' @ show_int (clock_now clk),
                whisper_type = w_warning, category = cat_optimization,
                title = ''Health Scores Trending Low'',
                message = ''Your recent campaigns average '' @ show_int (js_round avgHealth)
                  @ '' health. Focus on stronger hooks and clearer CTAs.'',
                action = None, actionLabel = None, priority = high,
                icon = ''U+1F48A'', whisper_createdAt = clock_now clk\<rparr>]
            else if avgHealth \<ge> 80 then
              [\<lparr>whisper_id = ''whisper_health_good_'' @ show_int (clock_now clk),
                whisper_type = w_insight, category = cat_optimization,
                title = ''Strong Campaign Performance'',
                message = ''Your campaigns are averaging '' @ show_int (js_round avgHealth)
                  @ '' health. Keep up the momentum!'',
                action = None, actionLabel = None, priority = low,
                icon = ''U+1F31F'', whisper_createdAt = clock_now clk\<rparr>]
            else [])
           @ (if length recentCampaigns \<ge> 3 then
                let scores = map health_or_0 recentCampaigns
                in if scores ! 0 < scores ! 1 \<and> scores ! 1 < scores ! 2 then
                     [\<lparr>whisper_id = ''whisper_declining_'' @ show_int (clock_now clk),
                       whisper_type = w_warning, category = cat_optimization,
                       title = ''Declining Campaign Quality'',
                       message = ''Health scores have dropped for 3 consecutive campaigns. Review what changed in your approach.'',
                       action = None, actionLabel = None, priority = high,
                       icon = ''U+1F4C9'', whisper_createdAt = clock_now clk\<rparr>]
                   else []
              else []))"

definition analyzeTimingPatterns :: "Clock \<Rightarrow> StoredCampaign list \<Rightarrow> Whisper list" where
  "analyzeTimingPatterns clk campaigns =
     (case campaigns of
        [] \<Rightarrow> []
      | lastCampaign # rest \<Rightarrow>
          let daysSinceLast = (clock_now clk - updatedAt lastCampaign) div (1000 * 60 * 60 * 24);
              thisWeek = length (filter (\<lambda>c. createdAt c > clock_now clk - 7 * 24 * 60 * 60 * 1000)
                campaigns)
          in (if daysSinceLast > 14 then
                [\<lparr>whisper_id = ''whisper_inactive_'' @ show_int (clock_now clk),
                  whisper_type = w_suggestion, category = cat_timing,
                  title = ''Time for Fresh Content'',
                  message = ''It's been '' @ show_int daysSinceLast
                    @ '' days since your last campaign. Consistency builds audience trust.'',
                  action = None, actionLabel = Some ''Start New Campaign'', priority = medium,
                  icon = ''U+1F4C5'', whisper_createdAt = clock_now clk\<rparr>]
              else [])
             @ (if thisWeek \<ge> 5 then
                [\<lparr>whisper_id = ''whisper_prolific_'' @ show_int (clock_now clk),
                  whisper_type = w_insight, category = cat_timing,
                  title = ''Prolific Week'',
                  message = ''You've created '' @ show_int (int thisWeek)
                    @ '' campaigns this week. Make sure quality matches quantity.'',
                  action = None, actionLabel = None, priority = low,
                  icon = ''U+1F525'', whisper_createdAt = clock_now clk\<rparr>]
              else []))"

text \<open>The three suggestions of \<^verbatim>\<open>generateOpportunities\<close>.\<close>

definition seasonal_whisper :: "Clock \<Rightarrow> Whisper" where
  \<open>seasonal_whisper clk =
     \<lparr>whisper_id = ''whisper_seasonal_'' @ show_int (clock_now clk),
      whisper_type = w_opportunity, category = cat_trends,
      title = ''New Year Campaign Opportunity'',
      message = ''New Year resolutions drive high engagement. Consider "fresh start" and "transformation" themes.'',
      action = None, actionLabel = None, priority = medium,
      icon = ''U+1F3AF'', whisper_createdAt = clock_now clk\<rparr>\<close>

definition monday_whisper :: "Clock \<Rightarrow> Whisper" where
  "monday_whisper clk =
     \<lparr>whisper_id = ''whisper_monday_'' @ show_int (clock_now clk),
      whisper_type = w_opportunity, category = cat_timing,
      title = ''Monday Motivation'',
      message = ''Motivation content performs well on Mondays. Perfect time for a new campaign launch.'',
      action = None, actionLabel = None, priority = low,
      icon = ''U+1F4AA'', whisper_createdAt = clock_now clk\<rparr>"

definition carousel_whisper :: "Clock \<Rightarrow> Whisper" where
  "carousel_whisper clk =
     \<lparr>whisper_id = ''whisper_carousel_'' @ show_int (clock_now clk),
      whisper_type = w_opportunity, category = cat_trends,
      title = ''LinkedIn Carousel Opportunity'',
      message = ''Carousels are driving high engagement on LinkedIn. Consider adding more to your mix.'',
      action = None, actionLabel = None, priority = medium,
      icon = ''U+1F3A0'', whisper_createdAt = clock_now clk\<rparr>"

definition generateOpportunities ::
  "Clock \<Rightarrow> StoredCampaign list \<Rightarrow> StoredAsset list \<Rightarrow> Whisper list" where
  "generateOpportunities clk campaigns assets =
     (let month = clock_month clk;
          dayOfWeek = clock_day clk;
          carouselCount = length (filter (\<lambda>a. asset_type a = carousel) assets)
      in (if month = 11 \<or> month = 0 then [seasonal_whisper clk] else [])
         @ (if dayOfWeek = 1 then [monday_whisper clk] else [])
         @ (if carouselCount < 3 \<and> length campaigns > 2 then [carousel_whisper clk] else []))"

definition campaign_pillars :: "StoredCampaign \<Rightarrow> string list" where
  "campaign_pillars c = (case stored_brief c of None \<Rightarrow> [] | Some b \<Rightarrow> meta_pillars (meta b))"

text \<open>\<^verbatim>\<open>pillar.replace(/_/g, ' ')\<close>\<close>

definition spaced :: "string \<Rightarrow> string" where
  "spaced s = map (\<lambda>c. if c = CHR ''_'' then CHR '' '' else c) s"

definition allPillars :: "string list" where
  "allPillars = [''primal_flow_fusion'', ''animator_shift'', ''moments'']"

definition analyzePillarUsage :: "Clock \<Rightarrow> StoredCampaign list \<Rightarrow> Whisper list" where
  \<open>analyzePillarUsage clk campaigns =
     (if length campaigns < 3 then []
      else
        let pillarCount = fold (\<lambda>c counts. fold count_up (campaign_pillars c) counts) campaigns [];
            total = length campaigns
        in concat (map (\<lambda>pillar.
             if rarely_used pillarCount pillar total 0.2 then
               [\<lparr>whisper_id = ''whisper_pillar_'' @ pillar @ ''_'' @ show_int (clock_now clk),
                 whisper_type = w_suggestion, category = cat_optimization,
                 title = ''Underused Pillar: '' @ spaced pillar,
                 message = ''The "'' @ spaced pillar
                   @ ''" pillar hasn't been featured much. It could open new creative angles.'',
                 action = None, actionLabel = None, priority = low,
                 icon = ''U+1F3DB U+FE0F'', whisper_createdAt = clock_now clk\<rparr>]
             else []) allPillars))\<close>

definition priorityOrder :: "Level \<Rightarrow> nat" where
  "priorityOrder p = (case p of high \<Rightarrow> 0 | medium \<Rightarrow> 1 | low \<Rightarrow> 2)"

text \<open>
  What the two reads of the storage give: the campaigns and the assets, or \<^term>\<open>None\<close>
  when a read is rejected. The rejection is caught and leaves the list of whispers
  empty. \<^verbatim>\<open>Array.prototype.sort\<close> is stable, as \<^term>\<open>sort_key\<close> is.
\<close>

type_synonym Stored = "(StoredCampaign list \<times> StoredAsset list) option"

definition collectWhispers :: "Clock \<Rightarrow> Stored \<Rightarrow> Whisper list" where
  "collectWhispers clk stored =
     (case stored of
        None \<Rightarrow> []
      | Some (campaigns, assets) \<Rightarrow>
          analyzeAssetDistribution clk assets
          @ analyzeCampaignPatterns clk campaigns
          @ analyzeTimingPatterns clk campaigns
          @ generateOpportunities clk campaigns assets
          @ analyzePillarUsage clk campaigns)"

definition generateWhispers :: "Clock \<Rightarrow> Stored \<Rightarrow> Whisper list" where
  "generateWhispers clk stored =
     take 5 (sort_key (\<lambda>w. priorityOrder (priority w)) (collectWhispers clk stored))"

text \<open>Two readings of the clock: a Wednesday in July and a Monday in December.\<close>

definition july_wednesday :: Clock where
  "july_wednesday = \<lparr>clock_now = 1752662400000, clock_month = 6, clock_day = 3\<rparr>"

definition december_monday :: Clock where
  "december_monday = \<lparr>clock_now = 1765800000000, clock_month = 11, clock_day = 1\<rparr>"

text \<open>
  A stored history to try the service on: two campaigns of health 10, updated at the
  time of the December reading, and one meme.
\<close>

definition weak_campaign :: StoredCampaign where
  "weak_campaign = \<lparr>campaign_id = ''c1'', stored_name = ''Launch'', stored_brief = None,
     stored_blueprint = None, createdAt = 1765800000000, updatedAt = 1765800000000,
     healthScore = Some 10, campaign_tags = None\<rparr>"

definition one_meme :: StoredAsset where
  "one_meme = \<lparr>asset_id = ''a1'', campaignId = ''c1'', asset_type = meme, dataUrl = [],
     prompt = [], asset_createdAt = 1765800000000, asset_tags = None\<rparr>"

definition small_history :: Stored where
  "small_history = Some ([weak_campaign, weak_campaign], [one_meme])"

section \<open>The health score in its environment\<close>





section \<open>Properties of the feedback service\<close>

lemma reach_of_nonzero: "reach_of m \<noteq> 0"
  by (simp add: reach_of_def or_num_def js_or_def truthy_def split: option.splits)

lemma reach_of_first_nonzero:
  "reach_of m = first_nonzero [reach m, impressions m, views m]"
  by (simp add: reach_of_def first_nonzero_def or_num_def js_or_def truthy_def
      split: option.splits)

lemma or_num_nonneg: "nonneg a \<Longrightarrow> 0 \<le> d \<Longrightarrow> 0 \<le> or_num a d"
  by (simp add: nonneg_def or_num_def split: option.splits)

text \<open>
  Claim C9 (as the code has it). \<^verbatim>\<open>calculateEngagementRate\<close> is total and never
  divides by zero: for every metrics object the denominator is the first non-zero of
  reach, impressions and views, or 1, it is never zero, and the result is the defined
  number (likes + comments + shares + saves) / denominator * 100. The result is
  non-negative whenever the seven fields read are non-negative.
\<close>

theorem calculateEngagementRate_total:
  "reach_of m = first_nonzero [reach m, impressions m, views m]
   \<and> reach_of m \<noteq> 0
   \<and> calculateEngagementRate m = Some (engagements_of m / reach_of m * 100)
   \<and> (nonneg (likes m) \<and> nonneg (comments m) \<and> nonneg (shares m) \<and> nonneg (saves m)
        \<and> nonneg (reach m) \<and> nonneg (impressions m) \<and> nonneg (views m)
      \<longrightarrow> 0 \<le> engagements_of m / reach_of m * 100)"
proof -
  have d: "reach_of m \<noteq> 0" by (rule reach_of_nonzero)
  have r: "calculateEngagementRate m = Some (engagements_of m / reach_of m * 100)"
    using d by (simp add: calculateEngagementRate_def js_div_def)
  have n: "0 \<le> engagements_of m / reach_of m * 100"
    if h: "nonneg (likes m) \<and> nonneg (comments m) \<and> nonneg (shares m) \<and> nonneg (saves m)
        \<and> nonneg (reach m) \<and> nonneg (impressions m) \<and> nonneg (views m)"
  proof -
    have e: "0 \<le> engagements_of m"
      using h by (simp add: engagements_of_def or_num_nonneg)
    have "nonneg (js_or (js_or (reach m) (impressions m)) (views m))"
      using h by (simp add: js_or_def)
    then have "0 \<le> reach_of m"
      by (simp add: reach_of_def or_num_nonneg)
    with e show ?thesis by simp
  qed
  show ?thesis using d r n reach_of_first_nonzero by blast
qed

theorem calculateEngagementRate_total_witness:
  "calculateEngagementRate (no_metrics\<lparr>likes := Some 3, views := Some 60\<rparr>) = Some 5
   \<and> calculateEngagementRate no_metrics = Some 0"
  using calculateEngagementRate_total [of "no_metrics\<lparr>likes := Some 3, views := Some 60\<rparr>"]
    calculateEngagementRate_total [of no_metrics]
  by (simp add: no_metrics_def engagements_of_def reach_of_def or_num_def js_or_def
      truthy_def)

text \<open>
  A metrics object with a negative count, which the dashboard's number fields accept,
  gives a negative rate.
\<close>

theorem calculateEngagementRate_negative:
  "calculateEngagementRate (no_metrics\<lparr>likes := Some (- 1)\<rparr>) = Some (- 100)
   \<and> \<not> (0::rat) \<le> - 100"
  by (simp add: calculateEngagementRate_def js_div_def no_metrics_def engagements_of_def
      reach_of_def or_num_def js_or_def truthy_def)

section \<open>Rounding and the range of the sub-scores\<close>

lemma js_round_mono: "x \<le> y \<Longrightarrow> js_round x \<le> js_round y"
  by (simp add: js_round_def floor_mono)

lemma js_round_of_int: "js_round (of_int n) = n"
  unfolding js_round_def by linarith


lemma js_round_range: "0 \<le> x \<Longrightarrow> x \<le> 100 \<Longrightarrow> 0 \<le> js_round x \<and> js_round x \<le> 100"
  using js_round_mono [of 0 x] js_round_mono [of x 100] js_round_of_int [of 0] js_round_of_int [of 100]
  by simp

lemma narrative_range: "0 \<le> analyzeNarrativeStrength b \<and> analyzeNarrativeStrength b \<le> 100"
  by (simp add: analyzeNarrativeStrength_def Let_def)

lemma emotional_range: "0 \<le> analyzeEmotionalBalance br b \<and> analyzeEmotionalBalance br b \<le> 100"
  by (simp add: analyzeEmotionalBalance_def Let_def)

lemma cta_range: "0 \<le> analyzeCtaClarity b \<and> analyzeCtaClarity b \<le> 100"
  by (simp add: analyzeCtaClarity_def Let_def)

lemma partial_credit:
  assumes "int gen < req"
  shows "0 \<le> (of_nat gen :: rat) / of_int req \<and> (of_nat gen :: rat) / of_int req < 1"
proof -
  have p: "(0::rat) < of_int req" using assms by simp
  have "(of_int (int gen) :: rat) < of_int req" using assms by (simp only: of_int_less_iff)
  then have "(of_nat gen :: rat) < of_int req" by simp
  with p show ?thesis by simp
qed

lemma coverage_step_inv:
  assumes "0 \<le> snd acc" "snd acc \<le> of_nat (fst acc)"
  shows "0 \<le> snd (coverage_step rg acc) \<and> snd (coverage_step rg acc) \<le> of_nat (fst (coverage_step rg acc))"
  proof (cases rg; cases acc)
  fix req gen n g
  assume e: "rg = (req, gen)" "acc = (n, g)"
  show ?thesis
  proof (cases "0 < req \<and> \<not> req \<le> int gen")
    case True
    then have lt: "int gen < req" by simp
    define c :: rat where "c = of_nat gen / of_int req"
    have c: "0 \<le> c \<and> c < 1"
      using partial_credit [OF lt] by (simp add: c_def)
    have step: "coverage_step rg acc = (n + 1, if gen > 0 then g + c else g)"
      using e True by (simp add: coverage_step_def c_def)
    have "0 \<le> g \<and> g \<le> of_nat n" using assms e by simp
    with c show ?thesis by (simp add: step)
  next
    case False
    with assms e show ?thesis by (auto simp: coverage_step_def)
  qed
qed

lemma coverage_fold_inv:
  "0 \<le> snd acc \<Longrightarrow> snd acc \<le> of_nat (fst acc) \<Longrightarrow>
   0 \<le> snd (fold coverage_step ps acc) \<and> snd (fold coverage_step ps acc) \<le> of_nat (fst (fold coverage_step ps acc))"
proof (induction ps arbitrary: acc)
  case Nil
  then show ?case by simp
next
  case (Cons p ps)
  from coverage_step_inv [OF Cons.prems, of p] show ?case
    by (simp add: Cons.IH)
qed

lemma ratio_range:
  fixes g :: rat
  assumes "0 \<le> g" "g \<le> of_nat n" "0 < n"
  shows "0 \<le> g / of_nat n * 100 \<and> g / of_nat n * 100 \<le> 100"
  using assms by (simp add: divide_le_eq)

lemma coverage_range: "0 \<le> analyzeAssetCoverage br b \<and> analyzeAssetCoverage br b \<le> 100"
proof -
  obtain n g where f: "fold coverage_step (coverage_pairs br b) (0, 0) = (n, g)"
    by (cases "fold coverage_step (coverage_pairs br b) (0, 0)")
  have "0 \<le> g \<and> g \<le> of_nat n"
    using coverage_fold_inv [of "(0, 0)" "coverage_pairs br b"] f by simp
  then show ?thesis
    using ratio_range [of g n] js_round_range [of "g / of_nat n * 100"]
    by (simp add: analyzeAssetCoverage_def f)
qed

lemma hook_points_range: "0 \<le> hook_points h \<and> hook_points h \<le> 25"
  by (simp add: hook_points_def Let_def)

lemma fold_hook_points:
  "fold (\<lambda>hook score. score + hook_points hook) hs s = s + sum_list (map hook_points hs)"
  by (induction hs arbitrary: s) simp_all

lemma sum_hook_points_range:
  "0 \<le> sum_list (map hook_points hs) \<and> sum_list (map hook_points hs) \<le> 25 * int (length hs)"
proof (induction hs)
  case Nil
  then show ?case by simp
next
  case (Cons h hs)
  then show ?case using hook_points_range [of h] by simp
qed

lemma hook_range: "0 \<le> analyzeHookQuality b \<and> analyzeHookQuality b \<le> 100"
proof (cases "hooks (narrative_pack b) = []")
  case True
  then show ?thesis by (simp add: analyzeHookQuality_def)
next
  case False
  let ?hs = "hooks (narrative_pack b)"
  let ?s = "sum_list (map hook_points ?hs)"
  have "0 \<le> ?s" using sum_hook_points_range by blast
  then have "0 \<le> (of_int ?s :: rat) / of_nat (length ?hs) * 4" by simp
  then have "0 \<le> js_round (of_int ?s / of_nat (length ?hs) * 4)"
    using js_round_mono [of 0] js_round_of_int [of 0] by simp
  then show ?thesis using False
    by (simp add: analyzeHookQuality_def Let_def fold_hook_points)
qed

lemma matchCount_le: "matchCount br b \<le> length (meta_pillars (meta br))"
  by (simp add: matchCount_def)

lemma pillar_range: "0 \<le> analyzePillarAlignment br b \<and> analyzePillarAlignment br b \<le> 100"
proof (cases "meta_pillars (meta br) = []")
  case True
  then show ?thesis by (simp add: analyzePillarAlignment_def)
next
  case False
  have "(of_nat (matchCount br b) :: rat) \<le> of_nat (length (meta_pillars (meta br)))"
    using matchCount_le [of br b] by (simp only: of_nat_le_iff)
  then show ?thesis
    using False ratio_range [of "of_nat (matchCount br b)" "length (meta_pillars (meta br))"]
      js_round_range [of "of_nat (matchCount br b) / of_nat (length (meta_pillars (meta br))) * 100"]
    by (simp add: analyzePillarAlignment_def)
qed

lemma weighted_sum_range:
  assumes "0 \<le> narrativeStrength bd \<and> narrativeStrength bd \<le> 100"
    "0 \<le> emotionalBalance bd \<and> emotionalBalance bd \<le> 100"
    "0 \<le> assetCoverage bd \<and> assetCoverage bd \<le> 100"
    "0 \<le> hookQuality bd \<and> hookQuality bd \<le> 100"
    "0 \<le> ctaClarity bd \<and> ctaClarity bd \<le> 100"
    "0 \<le> pillarAlignment bd \<and> pillarAlignment bd \<le> 100"
  shows "0 \<le> weighted_sum bd \<and> weighted_sum bd \<le> 100"
proof -
  have *: "\<And>n::int. 0 \<le> n \<and> n \<le> 100 \<Longrightarrow> 0 \<le> (of_int n :: rat) \<and> (of_int n :: rat) \<le> 100"
    by (metis of_int_0_le_iff of_int_le_iff of_int_numeral)
  show ?thesis
    using *[OF assms(1)] *[OF assms(2)] *[OF assms(3)] *[OF assms(4)] *[OF assms(5)] *[OF assms(6)]
    by (simp add: weighted_sum_def weights_def)
qed

section \<open>Properties of the health score\<close>

lemma breakdown_range:
  "0 \<le> narrativeStrength (analyzeBreakdown br b) \<and> narrativeStrength (analyzeBreakdown br b) \<le> 100"
  "0 \<le> emotionalBalance (analyzeBreakdown br b) \<and> emotionalBalance (analyzeBreakdown br b) \<le> 100"
  "0 \<le> assetCoverage (analyzeBreakdown br b) \<and> assetCoverage (analyzeBreakdown br b) \<le> 100"
  "0 \<le> hookQuality (analyzeBreakdown br b) \<and> hookQuality (analyzeBreakdown br b) \<le> 100"
  "0 \<le> ctaClarity (analyzeBreakdown br b) \<and> ctaClarity (analyzeBreakdown br b) \<le> 100"
  "0 \<le> pillarAlignment (analyzeBreakdown br b) \<and> pillarAlignment (analyzeBreakdown br b) \<le> 100"
  using narrative_range [of b] emotional_range [of br b] coverage_range [of br b]
    hook_range [of b] cta_range [of b] pillar_range [of br b]
  by (simp_all add: analyzeBreakdown_def)

lemma overall_eq: "overall (analyzeHealthScore br b) = js_round (weighted_sum (analyzeBreakdown br b))"
  by (simp add: analyzeHealthScore_def Let_def)

lemma breakdown_eq: "breakdown (analyzeHealthScore br b) = analyzeBreakdown br b"
  by (simp add: analyzeHealthScore_def Let_def)

text \<open>
  Claim C1. For every brief and every blueprint the overall health score is an integer
  between 0 and 100, and so is each of the six sub-scores of the breakdown.
\<close>

theorem analyzeHealthScore_range:
  "0 \<le> overall (analyzeHealthScore brief blueprint)
   \<and> overall (analyzeHealthScore brief blueprint) \<le> 100
   \<and> 0 \<le> narrativeStrength (breakdown (analyzeHealthScore brief blueprint))
   \<and> narrativeStrength (breakdown (analyzeHealthScore brief blueprint)) \<le> 100
   \<and> 0 \<le> emotionalBalance (breakdown (analyzeHealthScore brief blueprint))
   \<and> emotionalBalance (breakdown (analyzeHealthScore brief blueprint)) \<le> 100
   \<and> 0 \<le> assetCoverage (breakdown (analyzeHealthScore brief blueprint))
   \<and> assetCoverage (breakdown (analyzeHealthScore brief blueprint)) \<le> 100
   \<and> 0 \<le> hookQuality (breakdown (analyzeHealthScore brief blueprint))
   \<and> hookQuality (breakdown (analyzeHealthScore brief blueprint)) \<le> 100
   \<and> 0 \<le> ctaClarity (breakdown (analyzeHealthScore brief blueprint))
   \<and> ctaClarity (breakdown (analyzeHealthScore brief blueprint)) \<le> 100
   \<and> 0 \<le> pillarAlignment (breakdown (analyzeHealthScore brief blueprint))
   \<and> pillarAlignment (breakdown (analyzeHealthScore brief blueprint)) \<le> 100"
proof -
  let ?bd = "analyzeBreakdown brief blueprint"
  have w: "0 \<le> weighted_sum ?bd \<and> weighted_sum ?bd \<le> 100"
    by (rule weighted_sum_range) (rule breakdown_range)+
  then have "0 \<le> js_round (weighted_sum ?bd) \<and> js_round (weighted_sum ?bd) \<le> 100"
    by (simp add: js_round_range)
  then show ?thesis
    using breakdown_range [of brief blueprint]
    by (simp add: overall_eq breakdown_eq)
qed





section \<open>Properties of the asset coverage\<close>




















section \<open>Properties of the pillar alignment\<close>

















section \<open>Properties of the publishing service\<close>

lemma publish_store_unchanged: "snd (publish now store request) = store"
  by (simp add: publish_def publishToMeta_def publishToTikTok_def publishToLinkedIn_def
      publishToTwitter_def split: option.splits)

lemma failure_fields:
  "success (failure p msg) = False" "error (failure p msg) = Some msg"
  "postId (failure p msg) = None" "result_platform (failure p msg) = p"
  by (simp_all add: failure_def)

lemma publish_unauthenticated:
  assumes "platform request \<in> {''meta'', ''tiktok'', ''linkedin'', ''twitter''}"
    and "getStoredCredentials store (platform request) = None"
  shows "\<exists>msg. fst (publish now store request) = failure (platform request) msg"
  using assms
  by (auto simp: publish_def publishToMeta_def publishToTikTok_def publishToLinkedIn_def
      publishToTwitter_def)

lemma publish_unknown:
  assumes "platform request \<notin> {''meta'', ''tiktok'', ''linkedin'', ''twitter''}"
  shows "fst (publish now store request) = failure (platform request) ''Unknown platform''"
  using assms by (simp add: publish_def)

text \<open>
  Claim C5. Publishing is gated on the stored credentials. For each of the four
  platforms, when no credentials are stored for it, \<^verbatim>\<open>publish\<close> returns a result with
  \<open>success = false\<close>, an error message and no \<open>postId\<close>, and the stored
  credentials are unchanged. For any other platform the result has \<open>success = false\<close>
  and the error \<open>Unknown platform\<close>.
\<close>

theorem publish_gated_on_credentials:
  "(platform request \<in> {''meta'', ''tiktok'', ''linkedin'', ''twitter''}
      \<and> getStoredCredentials store (platform request) = None
    \<longrightarrow> success (fst (publish now store request)) = False
        \<and> error (fst (publish now store request)) \<noteq> None
        \<and> postId (fst (publish now store request)) = None
        \<and> result_platform (fst (publish now store request)) = platform request
        \<and> snd (publish now store request) = store)
   \<and> (platform request \<notin> {''meta'', ''tiktok'', ''linkedin'', ''twitter''}
    \<longrightarrow> success (fst (publish now store request)) = False
        \<and> error (fst (publish now store request)) = Some ''Unknown platform''
        \<and> postId (fst (publish now store request)) = None
        \<and> snd (publish now store request) = store)"
proof -
  have a: "success (fst (publish now store request)) = False
        \<and> error (fst (publish now store request)) \<noteq> None
        \<and> postId (fst (publish now store request)) = None
        \<and> result_platform (fst (publish now store request)) = platform request"
    if "platform request \<in> {''meta'', ''tiktok'', ''linkedin'', ''twitter''}
      \<and> getStoredCredentials store (platform request) = None"
  proof -
    from that obtain msg where "fst (publish now store request) = failure (platform request) msg"
      using publish_unauthenticated by blast
    then show ?thesis by (simp add: failure_fields)
  qed
  have b: "success (fst (publish now store request)) = False
        \<and> error (fst (publish now store request)) = Some ''Unknown platform''
        \<and> postId (fst (publish now store request)) = None"
    if "platform request \<notin> {''meta'', ''tiktok'', ''linkedin'', ''twitter''}"
    using publish_unknown [OF that] by (simp add: failure_fields)
  show ?thesis using a b publish_store_unchanged by blast
qed

lemma empty_request_platform: "platform (empty_request p) = p"
  by (simp add: empty_request_def)

theorem publish_gated_on_credentials_witness:
  "fst (publish 1700000000000 Map.empty (empty_request ''meta'')) =
     failure ''meta'' ''Not authenticated with Meta. Please connect your account.''
   \<and> snd (publish 1700000000000 Map.empty (empty_request ''meta'')) = Map.empty
   \<and> error (fst (publish 1700000000000 Map.empty (empty_request ''facebook''))) =
       Some ''Unknown platform''"
  using publish_gated_on_credentials [of "empty_request ''meta''" Map.empty 1700000000000]
    publish_gated_on_credentials [of "empty_request ''facebook''" Map.empty 1700000000000]
  by (simp add: empty_request_platform getStoredCredentials_def publish_def publishToMeta_def)

lemma twitter_config:
  "PLATFORM_CONFIGS ''twitter'' = Some cfg \<Longrightarrow> maxTextLength cfg = 280"
  by (auto simp: PLATFORM_CONFIGS_def)

lemma twitter_config_defined: "PLATFORM_CONFIGS ''twitter'' \<noteq> None"
  by (simp add: PLATFORM_CONFIGS_def)

text \<open>
  Claim C10. With credentials stored for \<open>twitter\<close>, a request whose text is longer than
  280 characters gets \<open>success = false\<close>, the error
  \<open>Tweet exceeds 280 character limit.\<close> and no \<open>postId\<close>. The limit enforced is
  the \<open>maxTextLength\<close> of the twitter entry of \<^verbatim>\<open>PLATFORM_CONFIGS\<close>: the request
  succeeds exactly when its text is not longer than that.
\<close>

theorem publishToTwitter_limit:
  "getStoredCredentials store ''twitter'' \<noteq> None \<longrightarrow>
     ((\<exists>t. content_text (content request) = Some t \<and> length t > 280)
        \<longrightarrow> fst (publishToTwitter now store request) =
              failure ''twitter'' ''Tweet exceeds 280 character limit.''
            \<and> success (fst (publishToTwitter now store request)) = False
            \<and> error (fst (publishToTwitter now store request)) =
                Some ''Tweet exceeds 280 character limit.''
            \<and> postId (fst (publishToTwitter now store request)) = None)
     \<and> PLATFORM_CONFIGS ''twitter'' \<noteq> None
     \<and> (\<forall>cfg. PLATFORM_CONFIGS ''twitter'' = Some cfg \<longrightarrow>
          (success (fst (publishToTwitter now store request)) \<longleftrightarrow>
             \<not> (\<exists>t. content_text (content request) = Some t \<and> length t > maxTextLength cfg)))"
proof
  assume "getStoredCredentials store ''twitter'' \<noteq> None"
  then obtain c where c: "getStoredCredentials store ''twitter'' = Some c" by blast
  have long: "fst (publishToTwitter now store request) =
      failure ''twitter'' ''Tweet exceeds 280 character limit.''"
    if "\<exists>t. content_text (content request) = Some t \<and> length t > 280"
    using that c by (auto simp: publishToTwitter_def)
  have ok: "success (fst (publishToTwitter now store request)) \<longleftrightarrow>
      \<not> (\<exists>t. content_text (content request) = Some t \<and> length t > 280)"
    using c by (auto simp: publishToTwitter_def failure_def published_def split: option.splits)
  show "((\<exists>t. content_text (content request) = Some t \<and> length t > 280)
        \<longrightarrow> fst (publishToTwitter now store request) =
              failure ''twitter'' ''Tweet exceeds 280 character limit.''
            \<and> success (fst (publishToTwitter now store request)) = False
            \<and> error (fst (publishToTwitter now store request)) =
                Some ''Tweet exceeds 280 character limit.''
            \<and> postId (fst (publishToTwitter now store request)) = None)
     \<and> PLATFORM_CONFIGS ''twitter'' \<noteq> None
     \<and> (\<forall>cfg. PLATFORM_CONFIGS ''twitter'' = Some cfg \<longrightarrow>
          (success (fst (publishToTwitter now store request)) \<longleftrightarrow>
             \<not> (\<exists>t. content_text (content request) = Some t \<and> length t > maxTextLength cfg)))"
    using long ok twitter_config twitter_config_defined
    by (simp add: failure_fields)
qed

lemma text_request_text: "content_text (content (text_request p t)) = Some t"
  by (simp add: text_request_def)

theorem publishToTwitter_limit_witness:
  "fst (publishToTwitter 1700000000000 [''twitter'' \<mapsto> mock_credentials ''twitter'']
      (text_request ''twitter'' (replicate 281 CHR ''a''))) =
     failure ''twitter'' ''Tweet exceeds 280 character limit.''
   \<and> success (fst (publishToTwitter 1700000000000 [''twitter'' \<mapsto> mock_credentials ''twitter'']
      (text_request ''twitter'' (replicate 280 CHR ''a''))))"
  using publishToTwitter_limit [of "[''twitter'' \<mapsto> mock_credentials ''twitter'']"
      "text_request ''twitter'' (replicate 281 CHR ''a'')" 1700000000000]
    publishToTwitter_limit [of "[''twitter'' \<mapsto> mock_credentials ''twitter'']"
      "text_request ''twitter'' (replicate 280 CHR ''a'')" 1700000000000]
  by (simp add: getStoredCredentials_def text_request_text PLATFORM_CONFIGS_def)

section \<open>Properties of the whisper service\<close>

lemma one_meme_type: "asset_type_name (asset_type one_meme) = ''meme''"
  by (simp add: one_meme_def asset_type_name_def)

lemma priorities_assets:
  "map priority (analyzeAssetDistribution december_monday [one_meme]) = [medium, medium, medium, low]"
  by (simp add: analyzeAssetDistribution_def one_meme_type Let_def assetTypes_def rarely_used_def)

lemma priorities_patterns:
  "map priority (analyzeCampaignPatterns december_monday [weak_campaign, weak_campaign]) = [high]"
  by (simp add: analyzeCampaignPatterns_def Let_def health_or_0_def weak_campaign_def)

lemma priorities_timing:
  "map priority (analyzeTimingPatterns december_monday [weak_campaign, weak_campaign]) = []"
  by (simp add: analyzeTimingPatterns_def Let_def weak_campaign_def december_monday_def)

lemma priorities_opportunities:
  "map priority (generateOpportunities december_monday [weak_campaign, weak_campaign] [one_meme]) = [medium, low]"
  by (simp add: generateOpportunities_def Let_def december_monday_def seasonal_whisper_def monday_whisper_def)

lemma priorities_pillars:
  "map priority (analyzePillarUsage december_monday [weak_campaign, weak_campaign]) = []"
  by (simp add: analyzePillarUsage_def)

lemma priorities_collected:
  "map priority (collectWhispers december_monday small_history) =
     [medium, medium, medium, low, high, medium, low]"
  by (simp add: collectWhispers_def small_history_def priorities_assets priorities_patterns
      priorities_timing priorities_opportunities priorities_pillars)

lemma sort_key_map:
  "map f (sort_key (\<lambda>w. g (f w)) ws) = sort_key g (map f ws)"
proof (induction ws)
  case Nil
  then show ?case by simp
next
  case (Cons w ws)
  have ins: "map f (insort_key (\<lambda>w. g (f w)) x ys) = insort_key g (f x) (map f ys)" for x ys
    by (induction ys) simp_all
  show ?case by (simp add: ins Cons.IH)
qed

lemma priorities_generated:
  "map priority (generateWhispers december_monday small_history) =
     [high, medium, medium, medium, medium]"
proof -
  have "map priority (generateWhispers december_monday small_history) =
      take 5 (sort_key priorityOrder (map priority (collectWhispers december_monday small_history)))"
    unfolding generateWhispers_def
    by (simp only: take_map [symmetric] sort_key_map)
  then show ?thesis
    by (simp add: priorities_collected priorityOrder_def)
qed

lemma generateWhispers_length: "length (generateWhispers clk stored) \<le> 5"
  by (simp add: generateWhispers_def)

lemma generateWhispers_sorted:
  "sorted (map (\<lambda>w. priorityOrder (priority w)) (generateWhispers clk stored))"
proof -
  have "sorted (map (\<lambda>w. priorityOrder (priority w))
      (sort_key (\<lambda>w. priorityOrder (priority w)) (collectWhispers clk stored)))"
    by (rule sorted_sort_key)
  then have "sorted (take 5 (map (\<lambda>w. priorityOrder (priority w))
      (sort_key (\<lambda>w. priorityOrder (priority w)) (collectWhispers clk stored))))"
    by (rule sorted_wrt_take)
  then show ?thesis by (simp add: generateWhispers_def take_map)
qed

lemma sorted_precedes:
  fixes f :: "'a \<Rightarrow> nat"
  assumes s: "sorted (map f ws)" and i: "i < length ws" and j: "j < length ws"
    and lt: "f (ws ! i) < f (ws ! j)"
  shows "i < j"
proof (rule ccontr)
  assume "\<not> i < j"
  then have "j \<le> i" by simp
  have "i < length (map f ws)" using i by simp
  with s \<open>j \<le> i\<close> have "map f ws ! j \<le> map f ws ! i"
    by (rule sorted_nth_mono)
  then have "f (ws ! j) \<le> f (ws ! i)" using i j by simp
  with lt show False by simp
qed

text \<open>
  Claim C8. \<^verbatim>\<open>generateWhispers\<close> returns at most 5 whispers, ordered by priority: in
  the list returned every whisper of priority \<open>high\<close> comes before every whisper of
  priority \<open>medium\<close>, and every \<open>medium\<close> before every \<open>low\<close>.
\<close>

theorem generateWhispers_top5_by_priority:
  "length (generateWhispers clk stored) \<le> 5
   \<and> sorted (map (\<lambda>w. priorityOrder (priority w)) (generateWhispers clk stored))
   \<and> (\<forall>i j. i < length (generateWhispers clk stored) \<and> j < length (generateWhispers clk stored)
        \<and> priority (generateWhispers clk stored ! i) = high
        \<and> priority (generateWhispers clk stored ! j) = medium \<longrightarrow> i < j)
   \<and> (\<forall>i j. i < length (generateWhispers clk stored) \<and> j < length (generateWhispers clk stored)
        \<and> priority (generateWhispers clk stored ! i) = medium
        \<and> priority (generateWhispers clk stored ! j) = low \<longrightarrow> i < j)
   \<and> (\<forall>i j. i < length (generateWhispers clk stored) \<and> j < length (generateWhispers clk stored)
        \<and> priority (generateWhispers clk stored ! i) = high
        \<and> priority (generateWhispers clk stored ! j) = low \<longrightarrow> i < j)"
proof -
  let ?ws = "generateWhispers clk stored"
  let ?f = "\<lambda>w. priorityOrder (priority w)"
  have s: "sorted (map ?f ?ws)" by (rule generateWhispers_sorted)
  have p: "i < j" if "i < length ?ws" "j < length ?ws" "?f (?ws ! i) < ?f (?ws ! j)" for i j
    using s that by (rule sorted_precedes)
  have hm: "\<forall>i j. i < length ?ws \<and> j < length ?ws
        \<and> priority (?ws ! i) = high \<and> priority (?ws ! j) = medium \<longrightarrow> i < j"
  proof (intro allI impI)
    fix i j
    assume a: "i < length ?ws \<and> j < length ?ws
        \<and> priority (?ws ! i) = high \<and> priority (?ws ! j) = medium"
    then have "?f (?ws ! i) < ?f (?ws ! j)" by (simp add: priorityOrder_def)
    with a show "i < j" using p by blast
  qed
  have ml: "\<forall>i j. i < length ?ws \<and> j < length ?ws
        \<and> priority (?ws ! i) = medium \<and> priority (?ws ! j) = low \<longrightarrow> i < j"
  proof (intro allI impI)
    fix i j
    assume a: "i < length ?ws \<and> j < length ?ws
        \<and> priority (?ws ! i) = medium \<and> priority (?ws ! j) = low"
    then have "?f (?ws ! i) < ?f (?ws ! j)" by (simp add: priorityOrder_def)
    with a show "i < j" using p by blast
  qed
  have hl: "\<forall>i j. i < length ?ws \<and> j < length ?ws
        \<and> priority (?ws ! i) = high \<and> priority (?ws ! j) = low \<longrightarrow> i < j"
  proof (intro allI impI)
    fix i j
    assume a: "i < length ?ws \<and> j < length ?ws
        \<and> priority (?ws ! i) = high \<and> priority (?ws ! j) = low"
    then have "?f (?ws ! i) < ?f (?ws ! j)" by (simp add: priorityOrder_def)
    with a show "i < j" using p by blast
  qed
  show ?thesis using generateWhispers_length s hm ml hl by blast
qed

lemma opportunity_priorities:
  "priority (seasonal_whisper clk) = medium" "priority (monday_whisper clk) = low"
  "priority (carousel_whisper clk) = medium"
  by (simp_all add: seasonal_whisper_def monday_whisper_def carousel_whisper_def)

lemma collectWhispers_empty:
  "collectWhispers clk (Some ([], [])) =
     (if clock_month clk = 11 \<or> clock_month clk = 0 then [seasonal_whisper clk] else [])
     @ (if clock_day clk = 1 then [monday_whisper clk] else [])"
  by (simp add: collectWhispers_def analyzeAssetDistribution_def analyzeCampaignPatterns_def
      analyzeTimingPatterns_def generateOpportunities_def analyzePillarUsage_def)

lemma generateWhispers_empty:
  "generateWhispers clk (Some ([], [])) =
     (if clock_month clk = 11 \<or> clock_month clk = 0 then [seasonal_whisper clk] else [])
     @ (if clock_day clk = 1 then [monday_whisper clk] else [])"
  by (simp add: generateWhispers_def collectWhispers_empty opportunity_priorities
      priorityOrder_def)

lemma generateWhispers_subset:
  "set (generateWhispers clk stored) \<subseteq> set (collectWhispers clk stored)"
proof -
  have "set (generateWhispers clk stored)
      \<subseteq> set (sort_key (\<lambda>w. priorityOrder (priority w)) (collectWhispers clk stored))"
    unfolding generateWhispers_def by (rule set_take_subset)
  then show ?thesis by simp
qed

text \<open>
  Claim C4 (as the code has it). Every whisper returned by \<^verbatim>\<open>generateWhispers\<close> is one
  of those that the five analyzers produce from the stored campaigns and assets and
  the current date and time, and a rejected read of the storage gives none. With no
  campaign and no asset stored, the list returned holds the calendar suggestions only:
  the New Year whisper in December and January, the Monday whisper on a Monday; it is
  empty on any other day.
\<close>

theorem generateWhispers_from_history_and_clock:
  "set (generateWhispers clk stored) \<subseteq> set (collectWhispers clk stored)
   \<and> generateWhispers clk None = []
   \<and> generateWhispers clk (Some ([], [])) =
       (if clock_month clk = 11 \<or> clock_month clk = 0 then [seasonal_whisper clk] else [])
       @ (if clock_day clk = 1 then [monday_whisper clk] else [])
   \<and> (clock_month clk \<noteq> 11 \<and> clock_month clk \<noteq> 0 \<and> clock_day clk \<noteq> 1
        \<longrightarrow> generateWhispers clk (Some ([], [])) = [])"
proof -
  have n: "generateWhispers clk None = []"
    by (simp add: generateWhispers_def collectWhispers_def)
  have e: "clock_month clk \<noteq> 11 \<and> clock_month clk \<noteq> 0 \<and> clock_day clk \<noteq> 1
        \<longrightarrow> generateWhispers clk (Some ([], [])) = []"
    by (simp add: generateWhispers_empty)
  show ?thesis using generateWhispers_subset n generateWhispers_empty e by blast
qed

theorem generateWhispers_from_history_and_clock_witness:
  "generateWhispers july_wednesday (Some ([], [])) = []
   \<and> generateWhispers december_monday (Some ([], [])) =
       [seasonal_whisper december_monday, monday_whisper december_monday]"
  using generateWhispers_from_history_and_clock [of july_wednesday "Some ([], [])"]
    generateWhispers_from_history_and_clock [of december_monday "Some ([], [])"]
  by (simp add: july_wednesday_def december_monday_def)

text \<open>
  On a Monday in December, with no campaign and no asset stored, the list returned is
  not empty, and it is not the list returned for the same storage in July.
\<close>

theorem generateWhispers_empty_storage_december:
  "generateWhispers december_monday (Some ([], [])) \<noteq> []
   \<and> generateWhispers december_monday (Some ([], []))
       \<noteq> generateWhispers july_wednesday (Some ([], []))"
  by (simp add: generateWhispers_empty july_wednesday_def december_monday_def)

theorem generateWhispers_top5_by_priority_witness:
  "map priority (collectWhispers december_monday small_history) =
     [medium, medium, medium, low, high, medium, low]
   \<and> map priority (generateWhispers december_monday small_history) =
     [high, medium, medium, medium, medium]
   \<and> length (generateWhispers december_monday small_history) = 5"
proof -
  have a: "map priority (generateWhispers december_monday small_history) =
      [high, medium, medium, medium, medium]"
    by (rule priorities_generated)
  have "length (map priority (generateWhispers december_monday small_history)) = 5"
    by (simp only: a) simp
  then have b: "length (generateWhispers december_monday small_history) = 5" by simp
  show ?thesis
    using generateWhispers_top5_by_priority [of december_monday small_history] a b
    by (simp add: priorities_collected)
qed

section \<open>Determinism of the health score\<close>







end
